theory Spec2Isabelle
  imports Complex_Main "HOL-Library.Word"
begin

section \<open>Python values, errors and strings\<close>

text \<open>
  The handler of \<^verbatim>\<open>src/app.py\<close> works on strings, on values parsed from JSON and on
  the exceptions Python raises. A Python \<^verbatim>\<open>str\<close> is a \<^typ>\<open>string\<close> whose characters
  stand for the code points below 256; exceptions are values of \<open>error\<close>, and a function
  that can raise returns \<open>error + 'a\<close>.
\<close>

type_synonym byte = "8 word"

datatype error =
    TypeError
  | KeyError string
  | ValueError
  | JSONDecodeError
  | CollaboratorError string

text \<open>
  A float is an infinity, not-a-number or a finite binary64 value, held as the rational
  number it is equal to.
\<close>

datatype pyfloat = Finite rat | PosInf | NegInf | NaN

datatype json =
    JNull
  | JBool bool
  | JInt int
  | JFloat pyfloat
  | JStr string
  | JArr "json list"
  | JObj "(string \<times> json) list"

subsection \<open>\<^verbatim>\<open>str.encode('utf-8')\<close> and \<^verbatim>\<open>hexdigest\<close>\<close>

definition utf8_char :: "char \<Rightarrow> byte list" where
  "utf8_char c =
     (let n = (of_char c :: nat)
      in if n < 128 then [of_nat n] else [of_nat (192 + n div 64), of_nat (128 + n mod 64)])"

definition utf8 :: "string \<Rightarrow> byte list" where
  "utf8 s = concat (map utf8_char s)"

definition hex_digit :: "nat \<Rightarrow> char" where
  "hex_digit n = ''0123456789abcdef'' ! (n mod 16)"

definition hexdigest :: "byte list \<Rightarrow> string" where
  "hexdigest bs = concat (map (\<lambda>b. [hex_digit (unat b div 16), hex_digit (unat b mod 16)]) bs)"

definition is_ascii :: "string \<Rightarrow> bool" where
  "is_ascii s = list_all (\<lambda>c. (of_char c :: nat) < 128) s"

subsection \<open>\<^verbatim>\<open>float(str)\<close>\<close>

text \<open>
  The builtin strips white space, allows single underscores between digits, and then accepts
  an optional sign followed by \<^verbatim>\<open>inf\<close>, \<^verbatim>\<open>infinity\<close>, \<^verbatim>\<open>nan\<close> (in any case) or a
  decimal numeral with optional fraction and exponent. Everything else is
  \<^verbatim>\<open>ValueError\<close>, here \<open>None\<close>.
\<close>

definition is_space :: "char \<Rightarrow> bool" where
  "is_space c = ((of_char c :: nat) \<in> set [9, 10, 11, 12, 13, 32, 133, 160])"

definition is_digit :: "char \<Rightarrow> bool" where
  "is_digit c = (48 \<le> (of_char c :: nat) \<and> (of_char c :: nat) \<le> 57)"

definition strip :: "string \<Rightarrow> string" where
  "strip s = rev (dropWhile is_space (rev (dropWhile is_space s)))"

fun underscores_ok :: "char \<Rightarrow> string \<Rightarrow> bool" where
  "underscores_ok prev [] = (prev \<noteq> CHR ''_'')"
| "underscores_ok prev (c # cs) =
     (if c = CHR ''_'' then (if is_digit prev then underscores_ok c cs else False)
      else if prev = CHR ''_'' \<and> \<not> is_digit c then False
      else underscores_ok c cs)"

definition lower :: "char \<Rightarrow> char" where
  "lower c =
     (let n = (of_char c :: nat) in if 65 \<le> n \<and> n \<le> 90 then char_of (n + 32) else c)"

definition digits_value :: "string \<Rightarrow> int" where
  "digits_value ds = foldl (\<lambda>a c. 10 * a + ((of_char c :: int) - 48)) 0 ds"

definition pow10 :: "int \<Rightarrow> rat" where
  "pow10 k = (if 0 \<le> k then 10 ^ nat k else 1 / 10 ^ nat (- k))"

definition parse_sign :: "string \<Rightarrow> int \<times> string" where
  "parse_sign s =
     (case s of
        c # r \<Rightarrow> if c = CHR ''-'' then (- 1, r) else if c = CHR ''+'' then (1, r) else (1, s)
      | [] \<Rightarrow> (1, s))"

definition parse_exponent :: "string \<Rightarrow> int option" where
  "parse_exponent s =
     (case s of
        [] \<Rightarrow> Some 0
      | c # r \<Rightarrow>
          if lower c = CHR ''e'' then
            (case parse_sign r of
               (sg, r') \<Rightarrow>
                 if r' \<noteq> [] \<and> list_all is_digit r' then Some (sg * digits_value r')
                 else None)
          else None)"

definition parse_decimal :: "string \<Rightarrow> rat option" where
  "parse_decimal s =
     (let ip = takeWhile is_digit s;
          r1 = dropWhile is_digit s;
          dot = (r1 \<noteq> [] \<and> hd r1 = CHR ''.'');
          fp = (if dot then takeWhile is_digit (tl r1) else []);
          r2 = (if dot then dropWhile is_digit (tl r1) else r1)
      in if ip = [] \<and> fp = [] then None
         else (case parse_exponent r2 of
                 None \<Rightarrow> None
               | Some e \<Rightarrow> Some (of_int (digits_value (ip @ fp)) * pow10 (e - int (length fp)))))"

subsection \<open>Rounding to binary64\<close>

text \<open>
  A Python float is an IEEE binary64: 53 significant bits, exponents from -1022 to 1023,
  subnormals below. A real result is rounded to the nearest such value, to the even
  significand on a tie, and to an infinity from \<open>2 ^ 1024\<close> on.
\<close>

function bit_length :: "int \<Rightarrow> int" where
  "bit_length n = (if n \<le> 0 then 0 else 1 + bit_length (n div 2))"
  by pat_completeness auto
termination
  by (relation "measure nat") auto

declare bit_length.simps [simp del]

definition pow2 :: "int \<Rightarrow> rat" where
  "pow2 k = (if 0 \<le> k then 2 ^ nat k else 1 / 2 ^ nat (- k))"

definition round_half_even :: "rat \<Rightarrow> int" where
  "round_half_even y =
     (let f = \<lfloor>y\<rfloor>; d = y - of_int f
      in if d < 1 / 2 then f
         else if 1 / 2 < d then f + 1
         else if even f then f else f + 1)"

text \<open>The exponent \<open>e\<close> with \<open>2 ^ e \<le> a < 2 ^ (e + 1)\<close>, for positive \<open>a\<close>.\<close>

definition binade :: "rat \<Rightarrow> int" where
  "binade a = (if 1 \<le> a then bit_length \<lfloor>a\<rfloor> - 1 else - bit_length (\<lceil>1 / a\<rceil> - 1))"

definition b64_round :: "rat \<Rightarrow> pyfloat" where
  "b64_round x =
     (if x = 0 then Finite 0
      else
        (let a = \<bar>x\<bar>;
             ulp = pow2 (max (binade a) (- 1022) - 52);
             r = of_int (round_half_even (a / ulp)) * ulp
         in if 2 ^ 1024 \<le> r then (if x < 0 then NegInf else PosInf)
            else Finite (if x < 0 then - r else r)))"

definition py_float :: "string \<Rightarrow> pyfloat option" where
  "py_float s =
     (let t = strip s in
      if \<not> underscores_ok (CHR 0x00) t then None
      else (case parse_sign (filter (\<lambda>c. c \<noteq> CHR ''_'') t) of
              (sg, r) \<Rightarrow>
                if map lower r = ''inf'' \<or> map lower r = ''infinity''
                then Some (if sg < 0 then NegInf else PosInf)
                else if map lower r = ''nan'' then Some NaN
                else (case parse_decimal r of
                        None \<Rightarrow> None
                      | Some q \<Rightarrow> Some (b64_round (of_int sg * q)))))"

section \<open>The collaborators of the handler\<close>

text \<open>
  What the handler calls but does not define: the secret store, the JSON parser, the clock,
  the HMAC-SHA256 primitive of \<^verbatim>\<open>hmac\<close> and \<^verbatim>\<open>hashlib\<close>, and the Slack client. They are
  the fields of an environment; a collaborator that can raise returns an \<open>error\<close>.
\<close>

record api_request =
  token :: json
  api_method :: string
  channel :: json
  api_text :: json

record environment =
  get_secrets :: "string \<Rightarrow> error + string"
  json_loads :: "string \<Rightarrow> error + json"
  time_time :: rat
  hmac_sha256 :: "byte list \<Rightarrow> byte list \<Rightarrow> byte list"
  api_call :: "api_request \<Rightarrow> error option"

text \<open>
  Modelled from the spec: \<^verbatim>\<open>helpers.form_response\<close>, which is not among the sources. The
  spec gives the outbound response as a status code and a JSON body; the body is kept as
  the value the handler passes in.
\<close>

record http_response =
  statusCode :: int
  response_body :: json

definition form_response :: "int \<Rightarrow> json \<Rightarrow> http_response" where
  "form_response status b = \<lparr>statusCode = status, response_body = b\<rparr>"

section \<open>Module state and object identity\<close>

text \<open>
  \<^verbatim>\<open>STAGE is "prod"\<close> compares objects, not contents. A string object is either the
  interned object of a literal, one per content, or an object allocated at run time, which
  is identical only to itself. \<^verbatim>\<open>os.environ[...]\<close> decodes the variable into a new object.
\<close>

datatype str_obj = Interned string | Allocated nat string

fun str_value :: "str_obj \<Rightarrow> string" where
  "str_value (Interned s) = s"
| "str_value (Allocated a s) = s"

fun py_is :: "str_obj \<Rightarrow> str_obj \<Rightarrow> bool" where
  "py_is (Interned s) (Interned t) = (s = t)"
| "py_is (Allocated a s) (Allocated b t) = (a = b)"
| "py_is x y = False"

record module_globals =
  SECRETS_NAME :: string
  STAGE :: str_obj

definition module_init :: "(string \<times> string) list \<Rightarrow> error + module_globals" where
  "module_init environ =
     (case map_of environ ''SECRETS_NAME'' of
        None \<Rightarrow> Inl (KeyError ''SECRETS_NAME'')
      | Some n \<Rightarrow>
          (case map_of environ ''STAGE'' of
             None \<Rightarrow> Inl (KeyError ''STAGE'')
           | Some st \<Rightarrow> Inr \<lparr>SECRETS_NAME = n, STAGE = Allocated 1 st\<rparr>))"

section \<open>Subscripts, membership and slices on parsed values\<close>

fun py_getitem :: "json \<Rightarrow> string \<Rightarrow> error + json" where
  "py_getitem (JObj d) k = (case map_of d k of None \<Rightarrow> Inl (KeyError k) | Some v \<Rightarrow> Inr v)"
| "py_getitem v k = Inl TypeError"

fun is_substring :: "string \<Rightarrow> string \<Rightarrow> bool" where
  "is_substring k [] = (k = [])"
| "is_substring k (c # cs) = (if take (length k) (c # cs) = k then True else is_substring k cs)"

fun py_in :: "string \<Rightarrow> json \<Rightarrow> error + bool" where
  "py_in k (JObj d) = Inr (k \<in> set (map fst d))"
| "py_in k (JArr xs) = Inr (JStr k \<in> set xs)"
| "py_in k (JStr s) = Inr (is_substring k s)"
| "py_in k v = Inl TypeError"

definition slice_reversed :: "'a list \<Rightarrow> 'a list" where
  "slice_reversed xs = rev xs"

fun py_reverse :: "json \<Rightarrow> error + json" where
  "py_reverse (JStr s) = Inr (JStr (slice_reversed s))"
| "py_reverse (JArr xs) = Inr (JArr (slice_reversed xs))"
| "py_reverse v = Inl TypeError"

fun is_dict :: "json \<Rightarrow> bool" where
  "is_dict (JObj d) = True"
| "is_dict v = False"

section \<open>\<^verbatim>\<open>verify_request\<close>\<close>

text \<open>
  Line 132, \<^verbatim>\<open>abs(time.time() - float(slack_timestamp)) > 60 * 5\<close>, in float arithmetic:
  the clock is a finite float, the difference is rounded, and no comparison with
  not-a-number holds.
\<close>

fun float_sub :: "rat \<Rightarrow> pyfloat \<Rightarrow> pyfloat" where
  "float_sub a (Finite b) = b64_round (a - b)"
| "float_sub a PosInf = NegInf"
| "float_sub a NegInf = PosInf"
| "float_sub a NaN = NaN"

fun float_abs :: "pyfloat \<Rightarrow> pyfloat" where
  "float_abs (Finite x) = Finite \<bar>x\<bar>"
| "float_abs PosInf = PosInf"
| "float_abs NegInf = PosInf"
| "float_abs NaN = NaN"

fun float_gt :: "pyfloat \<Rightarrow> rat \<Rightarrow> bool" where
  "float_gt (Finite x) c = (c < x)"
| "float_gt PosInf c = True"
| "float_gt NegInf c = False"
| "float_gt NaN c = False"

definition stale :: "rat \<Rightarrow> pyfloat \<Rightarrow> bool" where
  "stale now t = float_gt (float_abs (float_sub now t)) (60 * 5)"

text \<open>
  \<^verbatim>\<open>bytes(x, 'utf-8')\<close> raises \<^verbatim>\<open>TypeError\<close> unless \<open>x\<close> is a string, and
  \<^verbatim>\<open>hmac.compare_digest\<close> raises it on a string with a non-ASCII character.
\<close>

definition verify_request :: "environment \<Rightarrow> string \<Rightarrow> string \<Rightarrow> string \<Rightarrow> json \<Rightarrow> error + bool" where
  "verify_request env slack_signature slack_timestamp slack_event_body app_signing_secret =
     (case py_float slack_timestamp of
        None \<Rightarrow> Inl ValueError
      | Some t \<Rightarrow>
          if stale (time_time env) t then Inr False
          else (case app_signing_secret of
                  JStr secret \<Rightarrow>
                    (let sig_basestring = utf8 (''v0:'' @ slack_timestamp @ '':'' @ slack_event_body);
                         slack_signing_secret = utf8 secret;
                         my_signature =
                           ''v0='' @ hexdigest (hmac_sha256 env slack_signing_secret sig_basestring)
                     in if is_ascii slack_signature then Inr (my_signature = slack_signature)
                        else Inl TypeError)
                | _ \<Rightarrow> Inl TypeError))"

section \<open>\<^verbatim>\<open>is_challenge\<close> and \<^verbatim>\<open>lambda_handler\<close>\<close>

definition is_challenge :: "json \<Rightarrow> error + bool" where
  "is_challenge slack_event_body =
     (case py_in ''challenge'' slack_event_body of
        Inl e \<Rightarrow> Inl e
      | Inr False \<Rightarrow> Inr False
      | Inr True \<Rightarrow>
          (case py_getitem slack_event_body ''challenge'' of
             Inl e \<Rightarrow> Inl e
           | Inr v \<Rightarrow> Inr True))"

text \<open>
  The API event: \<^verbatim>\<open>api_event["body"]\<close> is a string and \<^verbatim>\<open>api_event["headers"]\<close> maps
  header names to strings; a field is \<open>None\<close> when the key is absent.
\<close>

record api_event =
  event_body :: "string option"
  event_headers :: "(string \<times> string) list option"

type_synonym outcome = "(error + http_response) \<times> api_request list"

text \<open>Lines 51 to 55: \<open>Inr True\<close> lets the request through, \<open>Inr False\<close> is the 400.\<close>

definition verify_if_prod ::
  "environment \<Rightarrow> module_globals \<Rightarrow> (string \<times> string) list \<Rightarrow> string \<Rightarrow> json \<Rightarrow> error + bool" where
  "verify_if_prod env g request_headers slack_body_raw secrets =
     (if py_is (STAGE g) (Interned ''prod'') then
        (case map_of request_headers ''X-Slack-Signature'' of
           None \<Rightarrow> Inl (KeyError ''X-Slack-Signature'')
         | Some sg \<Rightarrow>
             (case map_of request_headers ''X-Slack-Request-Timestamp'' of
                None \<Rightarrow> Inl (KeyError ''X-Slack-Request-Timestamp'')
              | Some ts \<Rightarrow>
                  (case py_getitem secrets ''SIGNING_SECRET'' of
                     Inl e \<Rightarrow> Inl e
                   | Inr secret \<Rightarrow> verify_request env sg ts slack_body_raw secret)))
      else Inr True)"

text \<open>Lines 84 to 98: the reply to a user message.\<close>

definition reply_reversed :: "environment \<Rightarrow> json \<Rightarrow> json \<Rightarrow> outcome" where
  "reply_reversed env slack_client slack_event_dict =
     (case py_getitem slack_event_dict ''text'' of
        Inl e \<Rightarrow> (Inl e, [])
      | Inr txt \<Rightarrow>
          (case py_reverse txt of
             Inl e \<Rightarrow> (Inl e, [])
           | Inr reversed_text \<Rightarrow>
               (case py_getitem slack_event_dict ''channel'' of
                  Inl e \<Rightarrow> (Inl e, [])
                | Inr channel_id \<Rightarrow>
                    (let call = \<lparr>token = slack_client, api_method = ''chat.postMessage'',
                                 channel = channel_id, api_text = reversed_text\<rparr>
                     in case api_call env call of
                          Some e \<Rightarrow> (Inl e, [call])
                        | None \<Rightarrow> (Inr (form_response 200 (JObj [])), [call])))))"

text \<open>Lines 60 to 98: classification and reply.\<close>

definition classify_and_reply :: "environment \<Rightarrow> json \<Rightarrow> json \<Rightarrow> outcome" where
  "classify_and_reply env secrets slack_body_dict =
     (case is_challenge slack_body_dict of
        Inl e \<Rightarrow> (Inl e, [])
      | Inr True \<Rightarrow>
          (case py_getitem slack_body_dict ''challenge'' of
             Inl e \<Rightarrow> (Inl e, [])
           | Inr v \<Rightarrow> (Inr (form_response 200 (JObj [(''challenge'', v)])), []))
      | Inr False \<Rightarrow>
          (case py_getitem slack_body_dict ''event'' of
             Inl e \<Rightarrow> (Inl e, [])
           | Inr slack_event_dict \<Rightarrow>
               (case py_getitem secrets ''BOT_TOKEN'' of
                  Inl e \<Rightarrow> (Inl e, [])
                | Inr slack_client \<Rightarrow>
                    (case py_in ''bot_id'' slack_body_dict of
                       Inl e \<Rightarrow> (Inl e, [])
                     | Inr True \<Rightarrow> (Inr (form_response 200 (JObj [])), [])
                     | Inr False \<Rightarrow> reply_reversed env slack_client slack_event_dict))))"

definition lambda_handler :: "environment \<Rightarrow> module_globals \<Rightarrow> api_event \<Rightarrow> outcome" where
  "lambda_handler env g api_event =
     (case get_secrets env (SECRETS_NAME g) of
        Inl e \<Rightarrow> (Inl e, [])
      | Inr secret_string \<Rightarrow>
     (case json_loads env secret_string of
        Inl e \<Rightarrow> (Inl e, [])
      | Inr secrets \<Rightarrow>
     if \<not> is_dict secrets then (Inl TypeError, [])
     else
     (case event_body api_event of
        None \<Rightarrow> (Inl (KeyError ''body''), [])
      | Some slack_body_raw \<Rightarrow>
     (case json_loads env slack_body_raw of
        Inl e \<Rightarrow> (Inl e, [])
      | Inr slack_body_dict \<Rightarrow>
     (case event_headers api_event of
        None \<Rightarrow> (Inl (KeyError ''headers''), [])
      | Some request_headers \<Rightarrow>
     (case verify_if_prod env g request_headers slack_body_raw secrets of
        Inl e \<Rightarrow> (Inl e, [])
      | Inr False \<Rightarrow> (Inr (form_response 400 (JObj [(''Error'', JStr ''Bad Request Signature'')])), [])
      | Inr True \<Rightarrow> classify_and_reply env secrets slack_body_dict))))))"

section \<open>Sample invocations\<close>

text \<open>
  Concrete data on which the theorems below are applied. The parser and the digest of the
  sample environment are tables and stand-ins of the right types: the theorems hold for
  every environment, and the samples only instantiate them.
\<close>

definition secrets_text :: string where
  \<open>secrets_text = ''{"SIGNING_SECRET": "8f742231b10e", "BOT_TOKEN": "xoxb-1"}''\<close>

definition secrets_dict :: json where
  "secrets_dict = JObj [(''SIGNING_SECRET'', JStr ''8f742231b10e''), (''BOT_TOKEN'', JStr ''xoxb-1'')]"

definition signing_only_text :: string where
  \<open>signing_only_text = ''{"SIGNING_SECRET": "8f742231b10e"}''\<close>

definition challenge_text :: string where
  \<open>challenge_text = ''{"challenge": "abc123"}''\<close>

definition bot_text :: string where
  \<open>bot_text = ''{"bot_id": "B1"}''\<close>

definition bot_event_text :: string where
  \<open>bot_event_text = ''{"bot_id": "B1", "event": {"text": "hello", "channel": "C1"}}''\<close>

definition user_text :: string where
  \<open>user_text = ''{"event": {"text": "hello", "channel": "C1"}}''\<close>

definition empty_text :: string where
  \<open>empty_text = ''{}''\<close>

definition list_text :: string where
  \<open>list_text = ''["SIGNING_SECRET", "BOT_TOKEN"]''\<close>

definition sample_loads :: "string \<Rightarrow> error + json" where
  "sample_loads s =
     (case map_of
        [(secrets_text, secrets_dict),
         (signing_only_text, JObj [(''SIGNING_SECRET'', JStr ''8f742231b10e'')]),
         (challenge_text, JObj [(''challenge'', JStr ''abc123'')]),
         (bot_text, JObj [(''bot_id'', JStr ''B1'')]),
         (bot_event_text,
            JObj [(''bot_id'', JStr ''B1''),
                  (''event'', JObj [(''text'', JStr ''hello''), (''channel'', JStr ''C1'')])]),
         (user_text, JObj [(''event'', JObj [(''text'', JStr ''hello''), (''channel'', JStr ''C1'')])]),
         (empty_text, JObj []),
         (list_text, JArr [JStr ''SIGNING_SECRET'', JStr ''BOT_TOKEN''])] s of
        None \<Rightarrow> Inl JSONDecodeError
      | Some v \<Rightarrow> Inr v)"

definition sample_digest :: "byte list \<Rightarrow> byte list \<Rightarrow> byte list" where
  "sample_digest key msg = take 32 (key @ msg @ replicate 32 0)"

definition sample_env :: environment where
  "sample_env =
     \<lparr>get_secrets = (\<lambda>n. if n = ''slack-secrets'' then Inr secrets_text
                         else Inl (CollaboratorError ''ResourceNotFoundException'')),
      json_loads = sample_loads,
      time_time = 1531420618,
      hmac_sha256 = sample_digest,
      api_call = (\<lambda>r. None)\<rparr>"

definition signing_only_env :: environment where
  "signing_only_env = sample_env\<lparr>get_secrets := (\<lambda>n. Inr signing_only_text)\<rparr>"

definition failing_call_env :: environment where
  "failing_call_env = sample_env\<lparr>api_call := (\<lambda>r. Some (CollaboratorError ''ConnectionError''))\<rparr>"

definition list_secrets_env :: environment where
  "list_secrets_env = sample_env\<lparr>get_secrets := (\<lambda>n. Inr list_text)\<rparr>"

definition dev_globals :: module_globals where
  "dev_globals = \<lparr>SECRETS_NAME = ''slack-secrets'', STAGE = Allocated 1 ''dev''\<rparr>"

definition prod_globals :: module_globals where
  "prod_globals = \<lparr>SECRETS_NAME = ''slack-secrets'', STAGE = Allocated 1 ''prod''\<rparr>"

definition interned_prod_globals :: module_globals where
  "interned_prod_globals = \<lparr>SECRETS_NAME = ''slack-secrets'', STAGE = Interned ''prod''\<rparr>"

definition unsigned_headers :: "(string \<times> string) list" where
  "unsigned_headers =
     [(''X-Slack-Signature'', ''v0=bad''), (''X-Slack-Request-Timestamp'', ''1531420618'')]"

definition event_of :: "string \<Rightarrow> api_event" where
  "event_of raw = \<lparr>event_body = Some raw, event_headers = Some unsigned_headers\<rparr>"

definition signed_challenge_event :: api_event where
  "signed_challenge_event =
     \<lparr>event_body = Some challenge_text,
      event_headers = Some
        [(''X-Slack-Signature'',
            ''v0=38663734323233316231306576303a313533313432303631383a7b226368616c''),
         (''X-Slack-Request-Timestamp'', ''1531420618'')]\<rparr>"

section \<open>Facts about the encodings\<close>

lemma hex_digit_ascii: "(of_char (hex_digit n) :: nat) < 128"
proof -
  have "n mod 16 < length ''0123456789abcdef''" by simp
  then have "hex_digit n \<in> set ''0123456789abcdef''"
    unfolding hex_digit_def by (rule nth_mem)
  then show ?thesis by auto
qed

lemma is_ascii_append: "is_ascii (xs @ ys) = (is_ascii xs \<and> is_ascii ys)"
  by (simp add: is_ascii_def)

lemma is_ascii_hexdigest: "is_ascii (hexdigest bs)"
  by (induction bs) (simp_all add: is_ascii_def hexdigest_def hex_digit_ascii)

lemma is_ascii_signature: "is_ascii (''v0='' @ hexdigest bs)"
  unfolding is_ascii_append using is_ascii_hexdigest by (simp add: is_ascii_def)

section \<open>Rounding and the freshness window\<close>

text \<open>
  Rounding never carries a difference of at most 300 beyond 300, because 300 is itself a
  binary64 value: a timestamp whose float value lies within 300 seconds of the clock
  passes the test of line 132. The next binary64 value is \<open>300 + 1 / 2 ^ 44\<close>, so the test
  fires exactly when the difference of the two values exceeds \<open>300 + 1 / 2 ^ 45\<close>.
\<close>

lemma bit_length_le: "n < 2 ^ k \<Longrightarrow> bit_length n \<le> int k"
proof (induction k arbitrary: n)
  case 0
  then show ?case by (simp add: bit_length.simps [of n])
next
  case (Suc k)
  show ?case
  proof (cases "n \<le> 0")
    case True
    then show ?thesis by (simp add: bit_length.simps [of n])
  next
    case False
    from Suc.prems have "n div 2 < 2 ^ k" by simp
    then have "bit_length (n div 2) \<le> int k" by (rule Suc.IH)
    with False show ?thesis by (simp add: bit_length.simps [of n])
  qed
qed

lemma bit_length_nonneg: "0 \<le> bit_length n"
proof (induction n rule: bit_length.induct)
  case (1 n)
  then show ?case by (simp add: bit_length.simps [of n])
qed

lemma binade_le: 
  assumes "a \<le> 300"
  shows "binade a \<le> 8"
proof (cases "1 \<le> a")
  case True
  from assms have "\<lfloor>a\<rfloor> \<le> 300" by linarith
  then have "\<lfloor>a\<rfloor> < 2 ^ 9" by simp
  then have "bit_length \<lfloor>a\<rfloor> \<le> int 9" by (rule bit_length_le)
  with True show ?thesis by (simp add: binade_def)
next
  case False
  have "0 \<le> bit_length (\<lceil>1 / a\<rceil> - 1)" by (rule bit_length_nonneg)
  with False show ?thesis by (simp add: binade_def)
qed

lemma round_half_even_le:
  assumes "y \<le> of_int N"
  shows "round_half_even y \<le> N"
proof -
  from assms have le: "\<lfloor>y\<rfloor> \<le> N" by (simp add: floor_le_iff) 
  show ?thesis
  proof (cases "\<lfloor>y\<rfloor> = N")
    case True
    then have "of_int N \<le> y" by (metis of_int_floor_le)
    with assms have "y = of_int N" by simp
    then show ?thesis by (simp add: round_half_even_def)
  next
    case False
    with le have "\<lfloor>y\<rfloor> + 1 \<le> N" by simp
    then show ?thesis by (simp add: round_half_even_def Let_def)
  qed
qed

lemma round_half_even_nonneg:
  assumes "0 \<le> y"
  shows "0 \<le> round_half_even y"
proof -
  from assms have "0 \<le> \<lfloor>y\<rfloor>" by simp
  then show ?thesis by (simp add: round_half_even_def Let_def)
qed

lemma b64_round_magnitude:
  assumes "0 < a" and "a \<le> 300"
  defines "ulp \<equiv> pow2 (max (binade a) (- 1022) - 52)"
  shows "0 \<le> of_int (round_half_even (a / ulp)) * ulp"
    and "of_int (round_half_even (a / ulp)) * ulp \<le> 300"
proof -
  define m where "m = nat (52 - max (binade a) (- 1022))"
  from assms(2) have "binade a \<le> 8" by (rule binade_le)
  then have neg: "\<not> 0 \<le> max (binade a) (- 1022) - 52" by simp
  then have ulp: "ulp = 1 / 2 ^ m" by (simp add: ulp_def pow2_def m_def algebra_simps)
  have "a / ulp = a * 2 ^ m" by (simp add: ulp)
  also have "\<dots> \<le> 300 * 2 ^ m" using assms(2) by simp
  also have "\<dots> = of_int (300 * 2 ^ m)" by simp
  finally have "round_half_even (a / ulp) \<le> 300 * 2 ^ m" by (rule round_half_even_le)
  then have "(of_int (round_half_even (a / ulp)) :: rat) \<le> of_int (300 * 2 ^ m)"
    by (simp only: of_int_le_iff)
  then have "(of_int (round_half_even (a / ulp)) :: rat) \<le> 300 * 2 ^ m" by simp
  then show "of_int (round_half_even (a / ulp)) * ulp \<le> 300"
    by (simp add: ulp field_simps)
  have "0 \<le> a / ulp" using assms(1) by (simp add: ulp)
  then have "0 \<le> round_half_even (a / ulp)" by (rule round_half_even_nonneg)
  then show "0 \<le> of_int (round_half_even (a / ulp)) * ulp" by (simp add: ulp)
qed

lemma b64_round_within:
  assumes "\<bar>x\<bar> \<le> 300"
  shows "\<exists>r. b64_round x = Finite r \<and> \<bar>r\<bar> \<le> 300"
proof (cases "x = 0")
  case True
  then show ?thesis by (simp add: b64_round_def)
next
  case False
  define r where "r = of_int (round_half_even (\<bar>x\<bar> / pow2 (max (binade \<bar>x\<bar>) (- 1022) - 52)))
                        * pow2 (max (binade \<bar>x\<bar>) (- 1022) - 52)"
  from False have pos: "0 < \<bar>x\<bar>" by simp
  from b64_round_magnitude [OF pos assms] have r: "0 \<le> r" "r \<le> 300"
    by (simp_all add: r_def)
  have "(300 :: rat) < 2 ^ 1024" by simp
  with r have "\<not> 2 ^ 1024 \<le> r" by linarith
  with False have "b64_round x = Finite (if x < 0 then - r else r)"
    by (simp add: b64_round_def Let_def r_def)
  moreover from r have "\<bar>if x < 0 then - r else r\<bar> \<le> 300" by simp
  ultimately show ?thesis by blast
qed

lemma within_window_not_stale:
  assumes "\<bar>now - t\<bar> \<le> 300"
  shows "\<not> stale now (Finite t)"
proof -
  from b64_round_within [OF assms] obtain r where "b64_round (now - t) = Finite r" "\<bar>r\<bar> \<le> 300"
    by blast
  then show ?thesis by (simp add: stale_def)
qed

lemma bit_length_ge: "2 ^ k \<le> n \<Longrightarrow> int k + 1 \<le> bit_length n"
proof (induction k arbitrary: n)
  case 0
  then have "0 < n" by simp
  moreover have "0 \<le> bit_length (n div 2)" by (rule bit_length_nonneg)
  ultimately show ?case by (simp add: bit_length.simps [of n])
next
  case (Suc k)
  then have "2 ^ k \<le> n div 2" by simp
  then have "int k + 1 \<le> bit_length (n div 2)" by (rule Suc.IH)
  moreover from Suc.prems have "0 < n"
    by (smt (verit) zero_less_power)
  ultimately show ?case by (simp add: bit_length.simps [of n])
qed

lemma bit_length_lower: "0 < n \<Longrightarrow> 2 ^ nat (bit_length n - 1) \<le> n"
proof (induction n rule: bit_length.induct)
  case (1 n)
  show ?case
  proof (cases "n = 1")
    case True
    then show ?thesis by (simp add: bit_length.simps [of 1] bit_length.simps [of 0])
  next
    case False
    with "1.prems" have h: "0 < n div 2" by simp
    with "1.IH" "1.prems" have ih: "2 ^ nat (bit_length (n div 2) - 1) \<le> n div 2" by simp
    from h have "1 \<le> bit_length (n div 2)"
      using bit_length_ge [of 0 "n div 2"] by simp
    then have "nat (bit_length n - 1) = Suc (nat (bit_length (n div 2) - 1))"
      using "1.prems" by (simp add: bit_length.simps [of n] Suc_nat_eq_nat_zadd1)
    then have "(2::int) ^ nat (bit_length n - 1) = 2 * 2 ^ nat (bit_length (n div 2) - 1)"
      by simp
    also have "\<dots> \<le> 2 * (n div 2)" using ih by simp
    also have "\<dots> \<le> n" by simp
    finally show ?thesis .
  qed
qed

lemma round_half_even_ge:
  assumes "of_int N \<le> y"
  shows "N \<le> round_half_even y"
proof -
  from assms have "N \<le> \<lfloor>y\<rfloor>" by (simp add: le_floor_iff)
  then show ?thesis by (simp add: round_half_even_def Let_def)
qed

lemma round_half_even_gt:
  assumes "of_int N + 1 / 2 < y"
  shows "N + 1 \<le> round_half_even y"
proof -
  from assms have le: "N \<le> \<lfloor>y\<rfloor>" by (simp add: le_floor_iff)
  show ?thesis
  proof (cases "\<lfloor>y\<rfloor> = N")
    case True
    with assms have "1 / 2 < y - of_int \<lfloor>y\<rfloor>" by simp
    then show ?thesis using True by (simp add: round_half_even_def Let_def)
  next
    case False
    with le have "N + 1 \<le> \<lfloor>y\<rfloor>" by simp
    then show ?thesis by (simp add: round_half_even_def Let_def)
  qed
qed

lemma pow2_powi: "pow2 k = 2 powi k"
  by (simp add: pow2_def power_int_def power_one_over)

lemma binade_big:
  assumes "300 < a"
  shows "8 \<le> binade a" and "pow2 (binade a) \<le> a"
proof -
  from assms have one: "1 \<le> a" by simp
  from assms have fl: "300 \<le> \<lfloor>a\<rfloor>" by (simp add: le_floor_iff)
  then have "2 ^ 8 \<le> \<lfloor>a\<rfloor>" by simp
  then have bl: "int 8 + 1 \<le> bit_length \<lfloor>a\<rfloor>" by (rule bit_length_ge)
  with one show "8 \<le> binade a" by (simp add: binade_def)
  from fl have "0 < \<lfloor>a\<rfloor>" by simp
  then have "2 ^ nat (bit_length \<lfloor>a\<rfloor> - 1) \<le> \<lfloor>a\<rfloor>" by (rule bit_length_lower)
  then have "(of_int (2 ^ nat (bit_length \<lfloor>a\<rfloor> - 1)) :: rat) \<le> of_int \<lfloor>a\<rfloor>"
    by (simp only: of_int_le_iff)
  also have "\<dots> \<le> a" by simp
  finally have "(2 :: rat) ^ nat (bit_length \<lfloor>a\<rfloor> - 1) \<le> a" by simp
  with one bl show "pow2 (binade a) \<le> a" by (simp add: binade_def pow2_def)
qed

lemma b64_round_beyond_magnitude:
  assumes "300 + 1 / 2 ^ 45 < a"
  defines "ulp \<equiv> pow2 (max (binade a) (- 1022) - 52)"
  shows "300 < of_int (round_half_even (a / ulp)) * ulp"
proof -
  have "(0 :: rat) < 1 / 2 ^ 45" by simp
  with assms(1) have big: "300 < a" by linarith
  note e = binade_big [OF big]
  from e(1) have ulp: "ulp = pow2 (binade a - 52)" by (simp add: ulp_def)
  have ulp_pos: "0 < ulp" by (simp add: ulp pow2_powi)
  show ?thesis
  proof (cases "binade a = 8")
    case True
    then have u: "ulp = 1 / 2 ^ 44" by (simp add: ulp pow2_def)
    have "of_int (300 * 2 ^ 44) + 1 / 2 < a / ulp"
      using assms(1) by (simp add: u field_simps)
    then have "300 * 2 ^ 44 + 1 \<le> round_half_even (a / ulp)" by (rule round_half_even_gt)
    then have "(of_int (300 * 2 ^ 44 + 1) :: rat) \<le> of_int (round_half_even (a / ulp))"
      by (simp only: of_int_le_iff)
    then show ?thesis by (simp add: u field_simps)
  next
    case False
    with e(1) have nine: "9 \<le> binade a" by simp
    have "pow2 (52 + (binade a - 52)) = pow2 52 * pow2 (binade a - 52)"
      unfolding pow2_powi by (rule power_int_add) simp
    moreover have "pow2 52 = of_int (2 ^ 52)" by (simp add: pow2_def)
    ultimately have split: "pow2 (binade a) = of_int (2 ^ 52) * ulp" by (simp add: ulp)
    with e(2) ulp_pos have "of_int (2 ^ 52) \<le> a / ulp" by (simp add: field_simps)
    then have "2 ^ 52 \<le> round_half_even (a / ulp)" by (rule round_half_even_ge)
    then have "(of_int (2 ^ 52) :: rat) \<le> of_int (round_half_even (a / ulp))"
      by (simp only: of_int_le_iff)
    with ulp_pos have "of_int (2 ^ 52) * ulp \<le> of_int (round_half_even (a / ulp)) * ulp"
      by (simp only: mult_le_cancel_right_pos)
    with split have "pow2 (binade a) \<le> of_int (round_half_even (a / ulp)) * ulp" by simp
    moreover have "pow2 9 \<le> pow2 (binade a)"
      using nine by (simp add: pow2_powi power_int_increasing del: power_int_numeral)
    moreover have "(300 :: rat) < pow2 9" by (simp add: pow2_def)
    ultimately show ?thesis by linarith
  qed
qed

lemma b64_round_beyond:
  assumes "300 + 1 / 2 ^ 45 < \<bar>x\<bar>"
  shows "float_gt (float_abs (b64_round x)) 300"
proof -
  define r where "r = of_int (round_half_even (\<bar>x\<bar> / pow2 (max (binade \<bar>x\<bar>) (- 1022) - 52)))
                        * pow2 (max (binade \<bar>x\<bar>) (- 1022) - 52)"
  from b64_round_beyond_magnitude [OF assms] have r: "300 < r" by (simp add: r_def)
  have "(0 :: rat) < 1 / 2 ^ 45" by simp
  with assms have nz: "x \<noteq> 0" by auto
  then have "b64_round x =
     (if 2 ^ 1024 \<le> r then (if x < 0 then NegInf else PosInf) else Finite (if x < 0 then - r else r))"
    by (simp add: b64_round_def Let_def r_def)
  with r show ?thesis by simp
qed

lemma beyond_window_stale:
  assumes "300 + 1 / 2 ^ 45 < \<bar>now - t\<bar>"
  shows "stale now (Finite t)"
  using b64_round_beyond [OF assms] by (simp add: stale_def)

lemma binade_lt_512:
  assumes "a < 512"
  shows "binade a \<le> 8"
proof (cases "1 \<le> a")
  case True
  from assms have "\<lfloor>a\<rfloor> < 2 ^ 9" by (simp add: floor_less_iff)
  then have "bit_length \<lfloor>a\<rfloor> \<le> int 9" by (rule bit_length_le)
  with True show ?thesis by (simp add: binade_def)
next
  case False
  have "0 \<le> bit_length (\<lceil>1 / a\<rceil> - 1)" by (rule bit_length_nonneg)
  with False show ?thesis by (simp add: binade_def)
qed

lemma round_half_even_tie:
  assumes "y \<le> of_int N + 1 / 2" and "even N"
  shows "round_half_even y \<le> N"
proof -
  from assms(1) have "y < of_int N + 1" by simp
  then have le: "\<lfloor>y\<rfloor> \<le> N" by (simp add: floor_le_iff)
  show ?thesis
  proof (cases "\<lfloor>y\<rfloor> = N")
    case True
    with assms show ?thesis by (simp add: round_half_even_def Let_def)
  next
    case False
    with le have "\<lfloor>y\<rfloor> + 1 \<le> N" by simp
    then show ?thesis by (simp add: round_half_even_def Let_def)
  qed
qed

lemma b64_round_edge_magnitude:
  assumes "300 < a" and "a \<le> 300 + 1 / 2 ^ 45"
  defines "ulp \<equiv> pow2 (max (binade a) (- 1022) - 52)"
  shows "of_int (round_half_even (a / ulp)) * ulp \<le> 300"
proof -
  have "(1 :: rat) / 2 ^ 45 < 1" by simp
  with assms(2) have "a < 512" by linarith
  then have "binade a \<le> 8" by (rule binade_lt_512)
  moreover from assms(1) have "8 \<le> binade a" by (rule binade_big)
  ultimately have u: "ulp = 1 / 2 ^ 44" by (simp add: ulp_def pow2_def)
  have "a / ulp \<le> of_int (300 * 2 ^ 44) + 1 / 2"
    using assms(2) by (simp add: u field_simps)
  moreover have "even (300 * 2 ^ 44 :: int)" by simp
  ultimately have "round_half_even (a / ulp) \<le> 300 * 2 ^ 44" by (rule round_half_even_tie)
  then have "(of_int (round_half_even (a / ulp)) :: rat) \<le> of_int (300 * 2 ^ 44)"
    by (simp only: of_int_le_iff)
  then show ?thesis by (simp add: u field_simps)
qed

lemma b64_round_edge:
  assumes "300 < \<bar>x\<bar>" and "\<bar>x\<bar> \<le> 300 + 1 / 2 ^ 45"
  shows "\<not> float_gt (float_abs (b64_round x)) 300"
proof -
  define r where "r = of_int (round_half_even (\<bar>x\<bar> / pow2 (max (binade \<bar>x\<bar>) (- 1022) - 52)))
                        * pow2 (max (binade \<bar>x\<bar>) (- 1022) - 52)"
  from b64_round_edge_magnitude [OF assms] have r: "r \<le> 300" by (simp add: r_def)
  have "(300 :: rat) < 2 ^ 1024" by simp
  with r have small: "\<not> 2 ^ 1024 \<le> r" by linarith
  from assms(1) have "x \<noteq> 0" by auto
  with small have "b64_round x = Finite (if x < 0 then - r else r)"
    by (simp add: b64_round_def Let_def r_def)
  moreover have "0 \<le> r"
  proof -
    have "0 \<le> \<bar>x\<bar> / pow2 (max (binade \<bar>x\<bar>) (- 1022) - 52)"
      by (simp add: pow2_powi)
    then have "0 \<le> round_half_even (\<bar>x\<bar> / pow2 (max (binade \<bar>x\<bar>) (- 1022) - 52))"
      by (rule round_half_even_nonneg)
    then show ?thesis by (simp add: r_def pow2_powi)
  qed
  ultimately show ?thesis using r by simp
qed

lemma stale_finite_iff: "stale now (Finite t) \<longleftrightarrow> 300 + 1 / 2 ^ 45 < \<bar>now - t\<bar>"
proof (cases "300 + 1 / 2 ^ 45 < \<bar>now - t\<bar>")
  case True
  then show ?thesis by (simp add: beyond_window_stale)
next
  case False
  show ?thesis
  proof (cases "\<bar>now - t\<bar> \<le> 300")
    case True
    with False show ?thesis by (simp add: within_window_not_stale)
  next
    case False
    with \<open>\<not> 300 + 1 / 2 ^ 45 < \<bar>now - t\<bar>\<close>
    have "\<not> float_gt (float_abs (b64_round (now - t))) 300"
      by (intro b64_round_edge) simp_all
    with \<open>\<not> 300 + 1 / 2 ^ 45 < \<bar>now - t\<bar>\<close> show ?thesis by (simp add: stale_def)
  qed
qed

text \<open>
  Two floats of magnitude 256 or more are multiples of \<open>1 / 2 ^ 44\<close>, and so is their
  difference: there the test is the exact comparison with 300.
\<close>

lemma half_step: "(of_int M + 1 / 2 < (of_int K :: rat)) \<longleftrightarrow> M < K"
proof
  assume "of_int M + 1 / 2 < (of_int K :: rat)"
  then have "(of_int M :: rat) < of_int K" by linarith
  then show "M < K" by (simp only: of_int_less_iff)
next
  assume "M < K"
  then have "M + 1 \<le> K" by simp
  then have "(of_int (M + 1) :: rat) \<le> of_int K" by (simp only: of_int_le_iff)
  then show "of_int M + 1 / 2 < (of_int K :: rat)" by simp
qed

lemma stale_on_grid:
  assumes "now - t = of_int k / 2 ^ 44"
  shows "stale now (Finite t) \<longleftrightarrow> 300 < \<bar>now - t\<bar>"
proof -
  define m :: rat where "m = 2 ^ 44"
  have m: "0 < m" by (simp add: m_def)
  have half: "(1 :: rat) / 2 ^ 45 = 1 / (2 * m)" by (simp add: m_def)
  have whole: "300 * m = of_int (300 * 2 ^ 44)" by (simp add: m_def)
  have d: "\<bar>now - t\<bar> = of_int \<bar>k\<bar> / m" by (simp add: assms m_def abs_divide)
  have scaled: "(300 + 1 / (2 * m)) * m = 300 * m + 1 / 2"
    using m by (simp add: distrib_right)
  have "300 + 1 / 2 ^ 45 < \<bar>now - t\<bar> \<longleftrightarrow> (300 + 1 / (2 * m)) * m < of_int \<bar>k\<bar>"
    unfolding half d using m by (simp only: pos_less_divide_eq)
  also have "\<dots> \<longleftrightarrow> 300 * m + 1 / 2 < of_int \<bar>k\<bar>"
    by (simp only: scaled)
  also have "\<dots> \<longleftrightarrow> 300 * 2 ^ 44 < \<bar>k\<bar>"
    unfolding whole by (rule half_step)
  also have "\<dots> \<longleftrightarrow> 300 * m < of_int \<bar>k\<bar>"
    unfolding whole by (simp only: of_int_less_iff)
  also have "\<dots> \<longleftrightarrow> 300 < \<bar>now - t\<bar>"
    unfolding d using m by (simp only: pos_less_divide_eq)
  finally show ?thesis by (simp only: stale_finite_iff)
qed

section \<open>Signature verification\<close>

lemma verify_request_not_stale:
  assumes "py_float ts = Some t" and "\<not> stale (time_time env) t"
  shows "verify_request env sg ts body (JStr secret) = Inr True \<longleftrightarrow>
         sg = ''v0='' @ hexdigest (hmac_sha256 env (utf8 secret) (utf8 (''v0:'' @ ts @ '':'' @ body)))"
proof (cases "is_ascii sg")
  case True
  with assms show ?thesis by (auto simp: verify_request_def Let_def)
next
  case False
  with is_ascii_signature have "sg \<noteq> ''v0='' @ hexdigest (hmac_sha256 env (utf8 secret) (utf8 (''v0:'' @ ts @ '':'' @ body)))"
    by metis
  with False assms show ?thesis by (simp add: verify_request_def Let_def)
qed

text \<open>
  Claim C1. When the float value of the timestamp is within 300 seconds of the verifier's
  clock, \<open>verify_request\<close> returns true exactly when the supplied signature is
  \<^verbatim>\<open>v0=\<close> followed by the lowercase hex digest of the HMAC-SHA256, keyed by the UTF-8
  bytes of the signing secret, of \<^verbatim>\<open>v0:\<close> + timestamp + \<^verbatim>\<open>:\<close> + body. A signature
  with a non-ASCII character makes the comparison raise, so it never yields true.
\<close>

theorem verify_request_fresh_iff:
  assumes "py_float ts = Some (Finite t)" and "\<bar>time_time env - t\<bar> \<le> 300"
  shows "verify_request env sg ts body (JStr secret) = Inr True \<longleftrightarrow>
         sg = ''v0='' @ hexdigest (hmac_sha256 env (utf8 secret) (utf8 (''v0:'' @ ts @ '':'' @ body)))"
proof -
  from assms(2) have "\<not> stale (time_time env) (Finite t)"
    by (rule within_window_not_stale)
  with assms(1) show ?thesis by (rule verify_request_not_stale)
qed

theorem verify_request_fresh_iff_witness:
  "py_float ''1531420618'' = Some (Finite 1531420618) \<and>
   \<bar>time_time sample_env - 1531420618\<bar> \<le> 300 \<and>
   verify_request sample_env
     ''v0=38663734323233316231306576303a313533313432303631383a7b226368616c''
     ''1531420618'' challenge_text (JStr ''8f742231b10e'') = Inr True \<and>
   verify_request sample_env ''v0=bad'' ''1531420618'' challenge_text (JStr ''8f742231b10e'') \<noteq> Inr True"
proof -
  have p: "py_float ''1531420618'' = Some (Finite 1531420618)" by code_simp
  have f: "\<bar>time_time sample_env - 1531420618\<bar> \<le> 300" by (simp add: sample_env_def)
  have e: "''v0='' @ hexdigest (hmac_sha256 sample_env (utf8 ''8f742231b10e'')
             (utf8 (''v0:'' @ ''1531420618'' @ '':'' @ challenge_text)))
           = ''v0=38663734323233316231306576303a313533313432303631383a7b226368616c''"
    by code_simp
  show ?thesis
    using verify_request_fresh_iff [OF p f, of "''v0=38663734323233316231306576303a313533313432303631383a7b226368616c''" challenge_text "''8f742231b10e''"]
      verify_request_fresh_iff [OF p f, of "''v0=bad''" challenge_text "''8f742231b10e''"] p f e
    by simp
qed

text \<open>
  At the edge of the window the rounding decides. The timestamp below is written
  300.0000001 seconds before the clock, its float value is exactly 300 seconds before it,
  and the request is not stale.
\<close>

lemma rounded_timestamp_at_the_edge:
  "py_float ''1531420317.9999999'' = Some (Finite 1531420318) \<and>
   \<not> stale 1531420618 (Finite 1531420318)"
  by code_simp

lemma rounded_difference_at_the_edge:
  "py_float ''2147483947.9999997615814208984375'' = Some (Finite 2147483948) \<and>
   stale (2 ^ 31 - 1 / 2 ^ 22) (Finite 2147483948)"
  by code_simp



text \<open>
  Claim C3 asks that a malformed timestamp makes \<open>verify_request\<close> return false. The
  code passes the header to \<^verbatim>\<open>float\<close> with no handler around it: on a string that is
  not a float literal the function raises \<^verbatim>\<open>ValueError\<close> and returns nothing.
\<close>

theorem verify_request_malformed_timestamp_raises:
  "verify_request env sg ''not-a-number'' body secret = Inl ValueError
   \<and> verify_request env sg '''' body secret = Inl ValueError
   \<and> verify_request env sg ''12:30'' body secret = Inl ValueError"
proof -
  have "py_float ''not-a-number'' = None" by code_simp
  moreover have "py_float '''' = None" by code_simp
  moreover have "py_float ''12:30'' = None" by code_simp
  ultimately show ?thesis by (simp add: verify_request_def)
qed

text \<open>
  The literal \<^verbatim>\<open>nan\<close> is accepted by \<^verbatim>\<open>float\<close>, and no comparison with it holds,
  so such a timestamp is never stale.
\<close>

lemma verify_request_nan_timestamp:
  "verify_request env (''v0='' @ hexdigest (hmac_sha256 env (utf8 secret) (utf8 (''v0:'' @ ''nan'' @ '':'' @ body))))
     ''nan'' body (JStr secret) = Inr True"
proof -
  have "py_float ''nan'' = Some NaN" by code_simp
  then show ?thesis using is_ascii_signature by (simp add: verify_request_def stale_def Let_def)
qed

section \<open>The handler\<close>

lemma py_in_dict: "(k \<in> fst ` set d) = (map_of d k \<noteq> None)"
  by (simp add: map_of_eq_None_iff)

lemma is_challenge_dict: "is_challenge (JObj d) = Inr (map_of d ''challenge'' \<noteq> None)"
  by (cases "map_of d ''challenge''") (simp_all add: is_challenge_def py_in_dict)

lemma lambda_handler_reaches_classification:
  assumes "get_secrets env (SECRETS_NAME g) = Inr secret_string"
    and "json_loads env secret_string = Inr (JObj sd)"
    and "event_body api_event = Some raw"
    and "json_loads env raw = Inr body"
    and "event_headers api_event = Some hs"
    and "verify_if_prod env g hs raw (JObj sd) = Inr True"
  shows "lambda_handler env g api_event = classify_and_reply env (JObj sd) body"
  using assms by (simp add: lambda_handler_def)

lemma lambda_handler_rejects_bad_signature:
  assumes "get_secrets env (SECRETS_NAME g) = Inr secret_string"
    and "json_loads env secret_string = Inr (JObj sd)"
    and "event_body api_event = Some raw"
    and "json_loads env raw = Inr body"
    and "event_headers api_event = Some hs"
    and "py_is (STAGE g) (Interned ''prod'')"
    and "map_of hs ''X-Slack-Signature'' = Some sg"
    and "map_of hs ''X-Slack-Request-Timestamp'' = Some ts"
    and "map_of sd ''SIGNING_SECRET'' = Some secret"
    and "verify_request env sg ts raw secret = Inr False"
  shows "lambda_handler env g api_event =
           (Inr (form_response 400 (JObj [(''Error'', JStr ''Bad Request Signature'')])), [])"
  using assms by (simp add: lambda_handler_def verify_if_prod_def)

lemma verify_if_prod_allocated: "verify_if_prod env (g\<lparr>STAGE := Allocated a s\<rparr>) hs raw secrets = Inr True"
  by (simp add: verify_if_prod_def)

text \<open>
  Claim C4 asks for the 400 response whenever the stage is production and the signature
  does not verify. The lemma \<open>lambda_handler_rejects_bad_signature\<close> gives it when
  \<open>STAGE\<close> is the very object of the literal. The module reads \<open>STAGE\<close> from the process
  environment, which yields a different object with the same characters: the identity
  test fails, verification is skipped, and a request with a bad signature is answered.
\<close>

theorem prod_from_environ_skips_verification:
  "module_init [(''SECRETS_NAME'', ''slack-secrets''), (''STAGE'', ''prod'')] = Inr prod_globals \<and>
   str_value (STAGE prod_globals) = ''prod'' \<and>
   verify_request sample_env ''v0=bad'' ''1531420618'' user_text (JStr ''8f742231b10e'') = Inr False \<and>
   lambda_handler sample_env prod_globals (event_of user_text) =
     (Inr (form_response 200 (JObj [])),
      [\<lparr>token = JStr ''xoxb-1'', api_method = ''chat.postMessage'',
         channel = JStr ''C1'', api_text = JStr ''olleh''\<rparr>])"
proof -
  have "module_init [(''SECRETS_NAME'', ''slack-secrets''), (''STAGE'', ''prod'')] = Inr prod_globals"
    by (simp add: module_init_def prod_globals_def)
  moreover have "str_value (STAGE prod_globals) = ''prod''"
    by (simp add: prod_globals_def)
  moreover have "verify_request sample_env ''v0=bad'' ''1531420618'' user_text (JStr ''8f742231b10e'') = Inr False"
    by code_simp
  moreover have "lambda_handler sample_env prod_globals (event_of user_text) =
     (Inr (form_response 200 (JObj [])),
      [\<lparr>token = JStr ''xoxb-1'', api_method = ''chat.postMessage'',
         channel = JStr ''C1'', api_text = JStr ''olleh''\<rparr>])"
    by code_simp
  ultimately show ?thesis by simp
qed

text \<open>
  Claim C5. When the secrets are a mapping, the body parses to an object with a top-level
  \<^verbatim>\<open>challenge\<close> field and verification passes or is skipped, the handler returns
  status 200 with the challenge value echoed and makes no call to the messaging API.
\<close>

theorem challenge_is_echoed:
  assumes "get_secrets env (SECRETS_NAME g) = Inr secret_string"
    and "json_loads env secret_string = Inr (JObj sd)"
    and "event_body api_event = Some raw"
    and "json_loads env raw = Inr (JObj d)"
    and "event_headers api_event = Some hs"
    and "verify_if_prod env g hs raw (JObj sd) = Inr True"
    and "map_of d ''challenge'' = Some v"
  shows "lambda_handler env g api_event =
           (Inr (form_response 200 (JObj [(''challenge'', v)])), [])"
proof -
  have "lambda_handler env g api_event = classify_and_reply env (JObj sd) (JObj d)"
    using assms(1-6) by (rule lambda_handler_reaches_classification)
  also have "\<dots> = (Inr (form_response 200 (JObj [(''challenge'', v)])), [])"
    using assms(7) by (simp add: classify_and_reply_def is_challenge_dict)
  finally show ?thesis .
qed

theorem challenge_is_echoed_witness:
  "get_secrets sample_env (SECRETS_NAME interned_prod_globals) = Inr secrets_text \<and>
   json_loads sample_env secrets_text = Inr secrets_dict \<and>
   json_loads sample_env challenge_text = Inr (JObj [(''challenge'', JStr ''abc123'')]) \<and>
   verify_if_prod sample_env interned_prod_globals
     [(''X-Slack-Signature'', ''v0=38663734323233316231306576303a313533313432303631383a7b226368616c''),
      (''X-Slack-Request-Timestamp'', ''1531420618'')]
     challenge_text secrets_dict = Inr True \<and>
   lambda_handler sample_env interned_prod_globals signed_challenge_event =
     (Inr (form_response 200 (JObj [(''challenge'', JStr ''abc123'')])), [])"
proof -
  have a: "get_secrets sample_env (SECRETS_NAME interned_prod_globals) = Inr secrets_text"
    by (simp add: sample_env_def interned_prod_globals_def)
  have b: "json_loads sample_env secrets_text
             = Inr (JObj [(''SIGNING_SECRET'', JStr ''8f742231b10e''), (''BOT_TOKEN'', JStr ''xoxb-1'')])"
    by code_simp
  have c: "event_body signed_challenge_event = Some challenge_text"
    by (simp add: signed_challenge_event_def)
  have d: "json_loads sample_env challenge_text = Inr (JObj [(''challenge'', JStr ''abc123'')])"
    by code_simp
  have e: "event_headers signed_challenge_event = Some
        [(''X-Slack-Signature'', ''v0=38663734323233316231306576303a313533313432303631383a7b226368616c''),
         (''X-Slack-Request-Timestamp'', ''1531420618'')]"
    by (simp add: signed_challenge_event_def)
  have f: "verify_if_prod sample_env interned_prod_globals
     [(''X-Slack-Signature'', ''v0=38663734323233316231306576303a313533313432303631383a7b226368616c''),
      (''X-Slack-Request-Timestamp'', ''1531420618'')]
     challenge_text (JObj [(''SIGNING_SECRET'', JStr ''8f742231b10e''), (''BOT_TOKEN'', JStr ''xoxb-1'')]) = Inr True"
    by code_simp
  have k: "map_of [(''challenge'', JStr ''abc123'')] ''challenge'' = Some (JStr ''abc123'')"
    by simp
  show ?thesis
    using challenge_is_echoed [OF a b c d e f k] a b d f by (simp add: secrets_dict_def)
qed

text \<open>
  Claim C6, as amended. A body with a top-level \<^verbatim>\<open>bot_id\<close> field, no \<^verbatim>\<open>challenge\<close>
  field and an \<^verbatim>\<open>event\<close> field, handled with secrets that hold \<^verbatim>\<open>BOT_TOKEN\<close>, gets
  status 200 with an empty body and no outbound call. Without the \<^verbatim>\<open>event\<close> field the
  handler raises before it looks for \<^verbatim>\<open>bot_id\<close>, as the counterexample shows.
\<close>

theorem bot_event_with_event_field_is_ignored:
  assumes "get_secrets env (SECRETS_NAME g) = Inr secret_string"
    and "json_loads env secret_string = Inr (JObj sd)"
    and "event_body api_event = Some raw"
    and "json_loads env raw = Inr (JObj d)"
    and "event_headers api_event = Some hs"
    and "verify_if_prod env g hs raw (JObj sd) = Inr True"
    and "map_of d ''challenge'' = None"
    and "map_of d ''bot_id'' = Some b"
    and "map_of d ''event'' = Some ev"
    and "map_of sd ''BOT_TOKEN'' = Some tok"
  shows "lambda_handler env g api_event = (Inr (form_response 200 (JObj [])), [])"
proof -
  have "lambda_handler env g api_event = classify_and_reply env (JObj sd) (JObj d)"
    using assms(1-6) by (rule lambda_handler_reaches_classification)
  also have "\<dots> = (Inr (form_response 200 (JObj [])), [])"
    using assms(7-10) by (simp add: classify_and_reply_def is_challenge_dict py_in_dict)
  finally show ?thesis .
qed

theorem bot_event_with_event_field_is_ignored_witness:
  "json_loads sample_env bot_event_text =
     Inr (JObj [(''bot_id'', JStr ''B1''),
                (''event'', JObj [(''text'', JStr ''hello''), (''channel'', JStr ''C1'')])]) \<and>
   verify_if_prod sample_env dev_globals unsigned_headers bot_event_text secrets_dict = Inr True \<and>
   lambda_handler sample_env dev_globals (event_of bot_event_text) =
     (Inr (form_response 200 (JObj [])), [])"
proof -
  have a: "get_secrets sample_env (SECRETS_NAME dev_globals) = Inr secrets_text"
    by (simp add: sample_env_def dev_globals_def)
  have b: "json_loads sample_env secrets_text
             = Inr (JObj [(''SIGNING_SECRET'', JStr ''8f742231b10e''), (''BOT_TOKEN'', JStr ''xoxb-1'')])"
    by code_simp
  have c: "event_body (event_of bot_event_text) = Some bot_event_text"
    by (simp add: event_of_def)
  have d: "json_loads sample_env bot_event_text =
     Inr (JObj [(''bot_id'', JStr ''B1''),
                (''event'', JObj [(''text'', JStr ''hello''), (''channel'', JStr ''C1'')])])"
    by code_simp
  have e: "event_headers (event_of bot_event_text) = Some unsigned_headers"
    by (simp add: event_of_def)
  have f: "verify_if_prod sample_env dev_globals unsigned_headers bot_event_text
             (JObj [(''SIGNING_SECRET'', JStr ''8f742231b10e''), (''BOT_TOKEN'', JStr ''xoxb-1'')]) = Inr True"
    by (simp add: verify_if_prod_def dev_globals_def)
  have k1: "map_of [(''bot_id'', JStr ''B1''),
                (''event'', JObj [(''text'', JStr ''hello''), (''channel'', JStr ''C1'')])] ''challenge'' = None"
    by simp
  have k2: "map_of [(''bot_id'', JStr ''B1''),
                (''event'', JObj [(''text'', JStr ''hello''), (''channel'', JStr ''C1'')])] ''bot_id'' = Some (JStr ''B1'')"
    by simp
  have k3: "map_of [(''bot_id'', JStr ''B1''),
                (''event'', JObj [(''text'', JStr ''hello''), (''channel'', JStr ''C1'')])] ''event''
              = Some (JObj [(''text'', JStr ''hello''), (''channel'', JStr ''C1'')])"
    by simp
  have k4: "map_of [(''SIGNING_SECRET'', JStr ''8f742231b10e''), (''BOT_TOKEN'', JStr ''xoxb-1'')] ''BOT_TOKEN''
              = Some (JStr ''xoxb-1'')"
    by simp
  show ?thesis
    using bot_event_with_event_field_is_ignored [OF a b c d e f k1 k2 k3 k4] d f
    by (simp add: secrets_dict_def)
qed

theorem bot_event_without_event_field_counterexample:
  "json_loads sample_env bot_text = Inr (JObj [(''bot_id'', JStr ''B1'')]) \<and>
   verify_if_prod sample_env dev_globals unsigned_headers bot_text secrets_dict = Inr True \<and>
   lambda_handler sample_env dev_globals (event_of bot_text) = (Inl (KeyError ''event''), []) \<and>
   lambda_handler sample_env dev_globals (event_of bot_text) \<noteq> (Inr (form_response 200 (JObj [])), [])"
proof -
  have "json_loads sample_env bot_text = Inr (JObj [(''bot_id'', JStr ''B1'')])"
    by code_simp
  moreover have "verify_if_prod sample_env dev_globals unsigned_headers bot_text secrets_dict = Inr True"
    by (simp add: verify_if_prod_def dev_globals_def)
  moreover have "lambda_handler sample_env dev_globals (event_of bot_text) = (Inl (KeyError ''event''), [])"
    by code_simp
  ultimately show ?thesis by simp
qed

text \<open>
  Claim C7, as amended. For a user message (no top-level \<^verbatim>\<open>challenge\<close>, no top-level
  \<^verbatim>\<open>bot_id\<close>) whose event carries text \<open>t\<close> and channel \<open>c\<close>, handled with secrets that
  hold \<^verbatim>\<open>BOT_TOKEN\<close>, the handler makes exactly one call, \<^verbatim>\<open>chat.postMessage\<close> to \<open>c\<close>
  with the reversal of \<open>t\<close>; when that call returns it answers with status 200 and an
  empty body, and when the call raises the error leaves the handler. Without
  \<^verbatim>\<open>BOT_TOKEN\<close> the handler raises before any call, as the counterexample shows.
\<close>

theorem user_message_is_reversed:
  assumes "get_secrets env (SECRETS_NAME g) = Inr secret_string"
    and "json_loads env secret_string = Inr (JObj sd)"
    and "event_body api_event = Some raw"
    and "json_loads env raw = Inr (JObj d)"
    and "event_headers api_event = Some hs"
    and "verify_if_prod env g hs raw (JObj sd) = Inr True"
    and "map_of d ''challenge'' = None"
    and "map_of d ''bot_id'' = None"
    and "map_of d ''event'' = Some (JObj ed)"
    and "map_of ed ''text'' = Some (JStr t)"
    and "map_of ed ''channel'' = Some c"
    and "map_of sd ''BOT_TOKEN'' = Some tok"
  shows "lambda_handler env g api_event =
           ((case api_call env \<lparr>token = tok, api_method = ''chat.postMessage'', channel = c,
                                 api_text = JStr (rev t)\<rparr> of
               None \<Rightarrow> Inr (form_response 200 (JObj []))
             | Some e \<Rightarrow> Inl e),
            [\<lparr>token = tok, api_method = ''chat.postMessage'', channel = c,
               api_text = JStr (rev t)\<rparr>])"
proof -
  have "lambda_handler env g api_event = classify_and_reply env (JObj sd) (JObj d)"
    using assms(1-6) by (rule lambda_handler_reaches_classification)
  also have "\<dots> = reply_reversed env tok (JObj ed)"
    using assms(7-9,12) by (simp add: classify_and_reply_def is_challenge_dict py_in_dict)
  also have "\<dots> = ((case api_call env \<lparr>token = tok, api_method = ''chat.postMessage'', channel = c,
                                 api_text = JStr (rev t)\<rparr> of
               None \<Rightarrow> Inr (form_response 200 (JObj []))
             | Some e \<Rightarrow> Inl e),
            [\<lparr>token = tok, api_method = ''chat.postMessage'', channel = c,
               api_text = JStr (rev t)\<rparr>])"
    using assms(10,11)
    by (simp add: reply_reversed_def slice_reversed_def Let_def split: option.split)
  finally show ?thesis .
qed

theorem user_message_is_reversed_witness:
  "json_loads sample_env user_text =
     Inr (JObj [(''event'', JObj [(''text'', JStr ''hello''), (''channel'', JStr ''C1'')])]) \<and>
   verify_if_prod sample_env dev_globals unsigned_headers user_text secrets_dict = Inr True \<and>
   lambda_handler sample_env dev_globals (event_of user_text) =
     (Inr (form_response 200 (JObj [])),
      [\<lparr>token = JStr ''xoxb-1'', api_method = ''chat.postMessage'',
         channel = JStr ''C1'', api_text = JStr ''olleh''\<rparr>])"
proof -
  have a: "get_secrets sample_env (SECRETS_NAME dev_globals) = Inr secrets_text"
    by (simp add: sample_env_def dev_globals_def)
  have b: "json_loads sample_env secrets_text
             = Inr (JObj [(''SIGNING_SECRET'', JStr ''8f742231b10e''), (''BOT_TOKEN'', JStr ''xoxb-1'')])"
    by code_simp
  have c: "event_body (event_of user_text) = Some user_text"
    by (simp add: event_of_def)
  have d: "json_loads sample_env user_text =
     Inr (JObj [(''event'', JObj [(''text'', JStr ''hello''), (''channel'', JStr ''C1'')])])"
    by code_simp
  have e: "event_headers (event_of user_text) = Some unsigned_headers"
    by (simp add: event_of_def)
  have f: "verify_if_prod sample_env dev_globals unsigned_headers user_text
             (JObj [(''SIGNING_SECRET'', JStr ''8f742231b10e''), (''BOT_TOKEN'', JStr ''xoxb-1'')]) = Inr True"
    by (simp add: verify_if_prod_def dev_globals_def)
  have k1: "map_of [(''event'', JObj [(''text'', JStr ''hello''), (''channel'', JStr ''C1'')])] ''challenge'' = None"
    by simp
  have k2: "map_of [(''event'', JObj [(''text'', JStr ''hello''), (''channel'', JStr ''C1'')])] ''bot_id'' = None"
    by simp
  have k3: "map_of [(''event'', JObj [(''text'', JStr ''hello''), (''channel'', JStr ''C1'')])] ''event''
              = Some (JObj [(''text'', JStr ''hello''), (''channel'', JStr ''C1'')])"
    by simp
  have k4: "map_of [(''text'', JStr ''hello''), (''channel'', JStr ''C1'')] ''text'' = Some (JStr ''hello'')"
    by simp
  have k5: "map_of [(''text'', JStr ''hello''), (''channel'', JStr ''C1'')] ''channel'' = Some (JStr ''C1'')"
    by simp
  have k6: "map_of [(''SIGNING_SECRET'', JStr ''8f742231b10e''), (''BOT_TOKEN'', JStr ''xoxb-1'')] ''BOT_TOKEN''
              = Some (JStr ''xoxb-1'')"
    by simp
  have k7: "api_call sample_env \<lparr>token = JStr ''xoxb-1'', api_method = ''chat.postMessage'',
      channel = JStr ''C1'', api_text = JStr (rev ''hello'')\<rparr> = None"
    by (simp add: sample_env_def)
  show ?thesis
    using user_message_is_reversed [OF a b c d e f k1 k2 k3 k4 k5 k6] d f k7
    by (simp add: secrets_dict_def)
qed

theorem user_message_without_token_counterexample:
  "get_secrets signing_only_env (SECRETS_NAME dev_globals) = Inr signing_only_text \<and>
   json_loads signing_only_env signing_only_text = Inr (JObj [(''SIGNING_SECRET'', JStr ''8f742231b10e'')]) \<and>
   json_loads signing_only_env user_text =
     Inr (JObj [(''event'', JObj [(''text'', JStr ''hello''), (''channel'', JStr ''C1'')])]) \<and>
   lambda_handler signing_only_env dev_globals (event_of user_text) = (Inl (KeyError ''BOT_TOKEN''), []) \<and>
   lambda_handler failing_call_env dev_globals (event_of user_text) =
     (Inl (CollaboratorError ''ConnectionError''),
      [\<lparr>token = JStr ''xoxb-1'', api_method = ''chat.postMessage'',
         channel = JStr ''C1'', api_text = JStr ''olleh''\<rparr>])"
proof -
  have "get_secrets signing_only_env (SECRETS_NAME dev_globals) = Inr signing_only_text"
    by (simp add: signing_only_env_def)
  moreover have "json_loads signing_only_env signing_only_text
                   = Inr (JObj [(''SIGNING_SECRET'', JStr ''8f742231b10e'')])"
    by code_simp
  moreover have "json_loads signing_only_env user_text =
     Inr (JObj [(''event'', JObj [(''text'', JStr ''hello''), (''channel'', JStr ''C1'')])])"
    by code_simp
  moreover have "lambda_handler signing_only_env dev_globals (event_of user_text)
                   = (Inl (KeyError ''BOT_TOKEN''), [])"
    by code_simp
  moreover have "lambda_handler failing_call_env dev_globals (event_of user_text) =
     (Inl (CollaboratorError ''ConnectionError''),
      [\<lparr>token = JStr ''xoxb-1'', api_method = ''chat.postMessage'',
         channel = JStr ''C1'', api_text = JStr ''olleh''\<rparr>])"
    by code_simp
  ultimately show ?thesis by simp
qed

text \<open>
  Claim C8. The text transform \<^verbatim>\<open>text[::-1]\<close> is an involution: reversing the reversal
  of a string gives the string back.
\<close>

theorem reversal_involution:
  "py_reverse (JStr s) = Inr (JStr (slice_reversed s)) \<and> slice_reversed (slice_reversed s) = s"
  by (simp add: slice_reversed_def)

text \<open>
  Claim C9. When the secret store's answer parses to a value that is not a mapping, the
  handler raises \<^verbatim>\<open>TypeError\<close>, whatever the API event holds: no header is read, nothing
  is verified or classified, no call is made and no response is formed.
\<close>

theorem non_mapping_secrets_raise:
  assumes "get_secrets env (SECRETS_NAME g) = Inr secret_string"
    and "json_loads env secret_string = Inr secrets"
    and "\<not> is_dict secrets"
  shows "lambda_handler env g api_event = (Inl TypeError, [])"
  using assms by (simp add: lambda_handler_def)

theorem non_mapping_secrets_raise_witness:
  "get_secrets list_secrets_env (SECRETS_NAME dev_globals) = Inr list_text \<and>
   json_loads list_secrets_env list_text = Inr (JArr [JStr ''SIGNING_SECRET'', JStr ''BOT_TOKEN'']) \<and>
   \<not> is_dict (JArr [JStr ''SIGNING_SECRET'', JStr ''BOT_TOKEN'']) \<and>
   lambda_handler list_secrets_env dev_globals (event_of user_text) = (Inl TypeError, [])"
proof -
  have a: "get_secrets list_secrets_env (SECRETS_NAME dev_globals) = Inr list_text"
    by (simp add: list_secrets_env_def)
  have b: "json_loads list_secrets_env list_text = Inr (JArr [JStr ''SIGNING_SECRET'', JStr ''BOT_TOKEN''])"
    by code_simp
  have c: "\<not> is_dict (JArr [JStr ''SIGNING_SECRET'', JStr ''BOT_TOKEN''])" by simp
  show ?thesis using non_mapping_secrets_raise [OF a b c] a b c by simp
qed

text \<open>
  Claim C10. A body that parses to an object with neither a top-level \<^verbatim>\<open>challenge\<close>
  nor an \<^verbatim>\<open>event\<close> field makes the handler raise \<^verbatim>\<open>KeyError\<close> on \<^verbatim>\<open>event\<close>,
  whether or not \<^verbatim>\<open>bot_id\<close> is present, with no outbound call and no response.
\<close>

theorem missing_event_raises_key_error:
  assumes "get_secrets env (SECRETS_NAME g) = Inr secret_string"
    and "json_loads env secret_string = Inr (JObj sd)"
    and "event_body api_event = Some raw"
    and "json_loads env raw = Inr (JObj d)"
    and "event_headers api_event = Some hs"
    and "verify_if_prod env g hs raw (JObj sd) = Inr True"
    and "map_of d ''challenge'' = None"
    and "map_of d ''event'' = None"
  shows "lambda_handler env g api_event = (Inl (KeyError ''event''), [])"
proof -
  have "lambda_handler env g api_event = classify_and_reply env (JObj sd) (JObj d)"
    using assms(1-6) by (rule lambda_handler_reaches_classification)
  also have "\<dots> = (Inl (KeyError ''event''), [])"
    using assms(7,8) by (simp add: classify_and_reply_def is_challenge_dict)
  finally show ?thesis .
qed

theorem missing_event_raises_key_error_witness:
  "json_loads sample_env bot_text = Inr (JObj [(''bot_id'', JStr ''B1'')]) \<and>
   verify_if_prod sample_env dev_globals unsigned_headers bot_text secrets_dict = Inr True \<and>
   lambda_handler sample_env dev_globals (event_of bot_text) = (Inl (KeyError ''event''), [])"
proof -
  have a: "get_secrets sample_env (SECRETS_NAME dev_globals) = Inr secrets_text"
    by (simp add: sample_env_def dev_globals_def)
  have b: "json_loads sample_env secrets_text
             = Inr (JObj [(''SIGNING_SECRET'', JStr ''8f742231b10e''), (''BOT_TOKEN'', JStr ''xoxb-1'')])"
    by code_simp
  have c: "event_body (event_of bot_text) = Some bot_text"
    by (simp add: event_of_def)
  have d: "json_loads sample_env bot_text = Inr (JObj [(''bot_id'', JStr ''B1'')])"
    by code_simp
  have e: "event_headers (event_of bot_text) = Some unsigned_headers"
    by (simp add: event_of_def)
  have f: "verify_if_prod sample_env dev_globals unsigned_headers bot_text
             (JObj [(''SIGNING_SECRET'', JStr ''8f742231b10e''), (''BOT_TOKEN'', JStr ''xoxb-1'')]) = Inr True"
    by (simp add: verify_if_prod_def dev_globals_def)
  have k1: "map_of [(''bot_id'', JStr ''B1'')] ''challenge'' = None" by simp
  have k2: "map_of [(''bot_id'', JStr ''B1'')] ''event'' = None" by simp
  show ?thesis
    using missing_event_raises_key_error [OF a b c d e f k1 k2] d f
    by (simp add: secrets_dict_def)
qed

end
